theory Spec2Isabelle
  imports Main "HOL-Library.Word"
begin

section \<open>The data-access layer of gplus/dao.go\<close>

text \<open>
  The file \<^verbatim>\<open>gplus/dao.go\<close> builds statements for the gorm library and hands them to
  it. The library and the database behind it are not part of the repository: a handle
  \<^verbatim>\<open>*gorm.DB\<close> is modelled by the clauses chained onto it, in the order of the calls,
  together with the two result fields the file reads (\<^verbatim>\<open>Error\<close>, \<^verbatim>\<open>RowsAffected\<close>);
  what a finisher method (\<^verbatim>\<open>Count\<close>, \<^verbatim>\<open>First\<close>, \<^verbatim>\<open>Find\<close>, \<^verbatim>\<open>Scan\<close>,
  \<^verbatim>\<open>CreateInBatches\<close>) answers is a parameter of the model, and every finisher call is
  written to a log, so that "the query is never issued" is a statement about the log.

  Go's \<^verbatim>\<open>int\<close> is taken at 64 bits and \<^verbatim>\<open>int64\<close> is 64 bits; \<open>+\<close>, \<open>-\<close> and \<open>*\<close> on
  words wrap around as Go's do, and \<open>\<le>s\<close>, \<open><s\<close> are the signed comparisons. A value of
  type \<^verbatim>\<open>any\<close> is a value of the type variable \<open>'v\<close>; a row the executor materialises
  (an entity \<^verbatim>\<open>T\<close>, a result \<^verbatim>\<open>R\<close>, a \<^verbatim>\<open>map[string]any\<close>) is a value of \<open>'t\<close>. A Go
  \<^verbatim>\<open>error\<close> is \<open>string option\<close>, \<open>None\<close> being \<^verbatim>\<open>nil\<close>.
\<close>

type_synonym go_int = "64 word"
type_synonym int64 = "64 word"
type_synonym go_error = "string option"

subsection \<open>The gorm handle\<close>

datatype 'v clause =
    ClModel
  | ClDistinct "string list"
  | ClSelect "string list"
  | ClOmit "string list"
  | ClWhere string "'v list"
  | ClWhereMap "string \<rightharpoonup> 'v"
  | ClOrder string
  | ClGroup string
  | ClHaving string "'v list"
  | ClOffset go_int
  | ClLimit go_int

record 'v gorm_DB =
  Statement :: "'v clause list"
  Error :: go_error
  RowsAffected :: int64

text \<open>
  A chain method appends its clause. The handles of this file come from \<^verbatim>\<open>getDb\<close>,
  whose \<^verbatim>\<open>Clauses()\<close> call initialises them, after which gorm's chain methods work on the
  handle in place and return it: a call whose result the source drops
  (\<^verbatim>\<open>resultDb.Where(...)\<close> as a statement) still adds its clause.
\<close>

definition chain :: "'v clause \<Rightarrow> 'v gorm_DB \<Rightarrow> 'v gorm_DB" where
  "chain c db = db\<lparr>Statement := Statement db @ [c]\<rparr>"

definition Clauses :: "'v gorm_DB \<Rightarrow> 'v gorm_DB" where
  "Clauses db = db"

subsection \<open>The executor and its log\<close>

datatype 't finisher =
    FCreateInBatches "'t list" go_int
  | FCount
  | FFirst
  | FFind
  | FScan

record 't outcome =
  out_Error :: go_error
  out_RowsAffected :: int64
  out_count :: int64
  out_rows :: "'t list"

type_synonym ('v, 't) call = "'t finisher \<times> 'v gorm_DB"

type_synonym ('v, 't) executor = "('v, 't) call list \<Rightarrow> ('v, 't) call \<Rightarrow> 't outcome"

text \<open>
  \<open>finish\<close> issues one finisher on a handle: the executor answers from the calls
  issued so far and the call itself, the handle takes the answer's error and row count,
  and the call is appended to the log.
\<close>

definition finish ::
  "('v, 't) executor \<Rightarrow> ('v, 't) call list \<Rightarrow> 't finisher \<Rightarrow> 'v gorm_DB
     \<Rightarrow> 't outcome \<times> 'v gorm_DB \<times> ('v, 't) call list" where
  "finish ex lg f db =
     (let out = ex lg (f, db)
      in (out, db\<lparr>Error := out_Error out, RowsAffected := out_RowsAffected out\<rparr>, lg @ [(f, db)]))"

subsection \<open>Options, the global handle and getDb\<close>

text \<open>
  The types \<^verbatim>\<open>Option\<close>, \<^verbatim>\<open>OptionFunc\<close> and \<^verbatim>\<open>Query\<close> and the function
  \<^verbatim>\<open>getColumnName\<close> are declared in files of the package that are not at hand; the
  records below hold the fields \<^verbatim>\<open>dao.go\<close> reads and writes, and \<open>getColumnName\<close> is a
  parameter of the environment, beside the global handle and the executor.
\<close>

record 'v Option =
  Db :: "'v gorm_DB option"
  Selects :: "'v list"
  Omits :: "'v list"

type_synonym 'v OptionFunc = "'v Option \<Rightarrow> 'v Option"

record ('v, 't) env =
  globalDb :: "'v gorm_DB option"
  getColumnName :: "'v \<Rightarrow> string"
  executor :: "('v, 't) executor"

definition defaultBatchSize :: go_int where
  "defaultBatchSize = 1000"

definition Init :: "'v gorm_DB option \<Rightarrow> ('v, 't) env \<Rightarrow> ('v, 't) env" where
  "Init db e = e\<lparr>globalDb := db\<rparr>"

definition setSelectIfNeed :: "('v, 't) env \<Rightarrow> 'v Option \<Rightarrow> 'v gorm_DB \<Rightarrow> 'v gorm_DB" where
  "setSelectIfNeed e config db =
     (if Selects config \<noteq> [] then chain (ClSelect (map (getColumnName e) (Selects config))) db
      else db)"

definition setOmitIfNeed :: "('v, 't) env \<Rightarrow> 'v Option \<Rightarrow> 'v gorm_DB \<Rightarrow> 'v gorm_DB" where
  "setOmitIfNeed e config db =
     (if Omits config \<noteq> [] then chain (ClOmit (map (getColumnName e) (Omits config))) db
      else db)"

text \<open>
  \<^verbatim>\<open>getDb\<close> calls \<^verbatim>\<open>globalDb.Clauses()\<close> before it looks at the options: with no
  global handle (\<^verbatim>\<open>Init\<close> not called) that is a nil dereference, the result \<open>None\<close>.

  Handles are values here, and each call of \<^verbatim>\<open>getDb\<close> resolves the handle it is given
  as it stands. That is gorm's \<^verbatim>\<open>Clauses()\<close> on a handle such as \<^verbatim>\<open>gorm.Open\<close>,
  \<^verbatim>\<open>Session\<close> or \<^verbatim>\<open>Begin\<close> return, which gives every call an instance of its own. On
  a handle that is itself the result of a chain method \<^verbatim>\<open>Clauses()\<close> returns that very
  handle, so that a second call of \<^verbatim>\<open>getDb\<close> finds on it what the first call's work
  left there. The first resolution is the same in both cases; of the handle of a second
  resolution (the data query of the page functions, and the handle they return after
  it) the theorems below state only what holds in both.
\<close>

definition getDb :: "('v, 't) env \<Rightarrow> 'v OptionFunc list \<Rightarrow> 'v gorm_DB option" where
  "getDb e opts =
     (let config = fold (\<lambda>op c. op c) opts \<lparr>Db = None, Selects = [], Omits = []\<rparr>
      in case globalDb e of
           None \<Rightarrow> None
         | Some g \<Rightarrow>
             (let db = Clauses g;
                  db = (case Db config of None \<Rightarrow> db | Some d \<Rightarrow> Clauses d);
                  db = setOmitIfNeed e config db;
                  db = setSelectIfNeed e config db
              in Some db))"

subsection \<open>The condition builder's state and buildCondition\<close>

text \<open>
  A \<^verbatim>\<open>strings.Builder\<close> is the text written to it so far. \<^verbatim>\<open>ConditionMap\<close> is a Go map:
  it is kept as the list of its entries in the order in which \<^verbatim>\<open>range\<close> visits them, an
  order Go leaves open.
\<close>

record 'v Query =
  SelectColumns :: "string list"
  DistinctColumns :: "string list"
  QueryBuilder :: string
  OrBracketBuilder :: string
  OrBracketArgs :: "'v list"
  AndBracketBuilder :: string
  AndBracketArgs :: "'v list"
  QueryArgs :: "'v list"
  OrderBuilder :: string
  GroupBuilder :: string
  HavingBuilder :: string
  HavingArgs :: "'v list"
  ConditionMap :: "('v \<times> 'v) list"

definition resolveConditionMap :: "('v, 't) env \<Rightarrow> ('v \<times> 'v) list \<Rightarrow> (string \<rightharpoonup> 'v)" where
  "resolveConditionMap e entries =
     fold (\<lambda>(k, v) condMap. condMap(getColumnName e k \<mapsto> v)) entries Map.empty"

definition appendAndBracket :: "'v Query \<Rightarrow> 'v Query" where
  "appendAndBracket q =
     (if AndBracketBuilder q \<noteq> []
      then q\<lparr>QueryArgs := QueryArgs q @ AndBracketArgs q,
              QueryBuilder := QueryBuilder q @ AndBracketBuilder q\<rparr>
      else q)"

definition appendOrBracket :: "'v Query \<Rightarrow> 'v Query" where
  "appendOrBracket q =
     (if OrBracketBuilder q \<noteq> []
      then q\<lparr>QueryArgs := QueryArgs q @ OrBracketArgs q,
              QueryBuilder := QueryBuilder q @ OrBracketBuilder q\<rparr>
      else q)"

text \<open>
  The body of \<^verbatim>\<open>if q != nil { ... }\<close>: the query as the body leaves it, and the handle.
\<close>

definition applyQuery ::
  "('v, 't) env \<Rightarrow> 'v Query \<Rightarrow> 'v gorm_DB \<Rightarrow> 'v Query \<times> 'v gorm_DB" where
  "applyQuery e q resultDb =
     (let resultDb = (if DistinctColumns q \<noteq> [] then chain (ClDistinct (DistinctColumns q)) resultDb
                      else resultDb);
          resultDb = (if SelectColumns q \<noteq> [] then chain (ClSelect (SelectColumns q)) resultDb
                      else resultDb);
          (q, resultDb) =
            (if QueryBuilder q \<noteq> []
             then (let q = appendAndBracket q;
                       q = appendOrBracket q
                   in (q, chain (ClWhere (QueryBuilder q) (QueryArgs q)) resultDb))
             else (q, resultDb));
          resultDb = (if ConditionMap q \<noteq> []
                      then chain (ClWhereMap (resolveConditionMap e (ConditionMap q))) resultDb
                      else resultDb);
          resultDb = (if OrderBuilder q \<noteq> [] then chain (ClOrder (OrderBuilder q)) resultDb
                      else resultDb);
          resultDb = (if GroupBuilder q \<noteq> [] then chain (ClGroup (GroupBuilder q)) resultDb
                      else resultDb);
          resultDb = (if HavingBuilder q \<noteq> []
                      then chain (ClHaving (HavingBuilder q) (HavingArgs q)) resultDb
                      else resultDb)
      in (q, resultDb))"

text \<open>
  \<^verbatim>\<open>buildCondition\<close> takes a pointer to the query, \<open>None\<close> being \<^verbatim>\<open>nil\<close>, and writes to
  the query it points to: the result carries the query as the call leaves it.
\<close>

definition buildCondition ::
  "('v, 't) env \<Rightarrow> 'v Query option \<Rightarrow> 'v OptionFunc list \<Rightarrow> ('v Query option \<times> 'v gorm_DB) option" where
  "buildCondition e q opts =
     (case getDb e opts of
        None \<Rightarrow> None
      | Some db \<Rightarrow>
          (let resultDb = chain ClModel db
           in case q of
                None \<Rightarrow> Some (None, resultDb)
              | Some q0 \<Rightarrow> (let (q1, resultDb) = applyQuery e q0 resultDb in Some (Some q1, resultDb))))"

subsection \<open>Batch inserts\<close>

definition InsertBatch ::
  "('v, 't) env \<Rightarrow> ('v, 't) call list \<Rightarrow> 't list \<Rightarrow> 'v OptionFunc list
     \<Rightarrow> ('v gorm_DB \<times> ('v, 't) call list) option" where
  "InsertBatch e lg entities opts =
     (case getDb e opts of
        None \<Rightarrow> None
      | Some db \<Rightarrow>
          if length entities = 0 then Some (db, lg)
          else (let (out, resultDb, lg') = finish (executor e) lg (FCreateInBatches entities defaultBatchSize) db
                in Some (resultDb, lg')))"

definition InsertBatchSize ::
  "('v, 't) env \<Rightarrow> ('v, 't) call list \<Rightarrow> 't list \<Rightarrow> go_int \<Rightarrow> 'v OptionFunc list
     \<Rightarrow> ('v gorm_DB \<times> ('v, 't) call list) option" where
  "InsertBatchSize e lg entities batchSize opts =
     (case getDb e opts of
        None \<Rightarrow> None
      | Some db \<Rightarrow>
          if length entities = 0 then Some (db, lg)
          else (let batchSize = (if batchSize <=s 0 then defaultBatchSize else batchSize);
                    (out, resultDb, lg') = finish (executor e) lg (FCreateInBatches entities batchSize) db
                in Some (resultDb, lg')))"

subsection \<open>Single-record select, existence and count\<close>

text \<open>
  \<^verbatim>\<open>SelectOne\<close> returns a pointer to its local \<^verbatim>\<open>entity\<close>; the model returns the first
  row of the executor's answer, \<open>None\<close> when there is none and the entity keeps its zero
  value. Each function also returns the query as it leaves it and the log.
\<close>

definition SelectOne ::
  "('v, 't) env \<Rightarrow> ('v, 't) call list \<Rightarrow> 'v Query option \<Rightarrow> 'v OptionFunc list
     \<Rightarrow> ('t option \<times> 'v Query option \<times> 'v gorm_DB \<times> ('v, 't) call list) option" where
  "SelectOne e lg q opts =
     (case buildCondition e q opts of
        None \<Rightarrow> None
      | Some (q', resultDb) \<Rightarrow>
          (let (out, resultDb, lg') = finish (executor e) lg FFirst resultDb
           in Some (case out_rows out of [] \<Rightarrow> None | r # _ \<Rightarrow> Some r, q', resultDb, lg')))"

definition Exists ::
  "('v, 't) env \<Rightarrow> ('v, 't) call list \<Rightarrow> 'v Query option \<Rightarrow> 'v OptionFunc list
     \<Rightarrow> ((bool \<times> go_error) \<times> 'v Query option \<times> ('v, 't) call list) option" where
  "Exists e lg q opts =
     (case SelectOne e lg q opts of
        None \<Rightarrow> None
      | Some (_, q', dbRes, lg') \<Rightarrow> Some ((0 <s RowsAffected dbRes, Error dbRes), q', lg'))"

definition SelectCount ::
  "('v, 't) env \<Rightarrow> ('v, 't) call list \<Rightarrow> 'v Query option \<Rightarrow> 'v OptionFunc list
     \<Rightarrow> (int64 \<times> 'v Query option \<times> 'v gorm_DB \<times> ('v, 't) call list) option" where
  "SelectCount e lg q opts =
     (case buildCondition e q opts of
        None \<Rightarrow> None
      | Some (q', resultDb) \<Rightarrow>
          (let (out, resultDb, lg') = finish (executor e) lg FCount resultDb
           in Some (out_count out, q', resultDb, lg')))"

subsection \<open>Pages\<close>

record 't Page =
  Current :: go_int
  Size :: go_int
  Total :: int64
  Records :: "'t list"

definition NewPage :: "go_int \<Rightarrow> go_int \<Rightarrow> 't Page" where
  "NewPage current size' = \<lparr>Current = current, Size = size', Total = 0, Records = []\<rparr>"

text \<open>
  \<^verbatim>\<open>paginate\<close> copies the two fields into locals and returns a closure over the locals;
  the closure assigns to them when it runs. The closure is the record of its captured
  variables, and \<open>paginate_call\<close> runs it on a handle.
\<close>

record paginate_closure =
  cl_page :: go_int
  cl_pageSize :: go_int

definition paginate :: "'t Page \<Rightarrow> paginate_closure" where
  "paginate p = \<lparr>cl_page = Current p, cl_pageSize = Size p\<rparr>"

definition paginate_call :: "paginate_closure \<Rightarrow> 'v gorm_DB \<Rightarrow> paginate_closure \<times> 'v gorm_DB" where
  "paginate_call c db =
     (let page = (if cl_page c <=s 0 then 1 else cl_page c);
          pageSize = (if cl_pageSize c <=s 0 then 10 else cl_pageSize c);
          offset = (page - 1) * pageSize
      in (\<lparr>cl_page = page, cl_pageSize = pageSize\<rparr>, chain (ClLimit pageSize) (chain (ClOffset offset) db)))"

text \<open>
  \<^verbatim>\<open>Scopes\<close> registers the closure and gorm runs it on the handle when the finisher
  executes: the clauses it adds are on the handle the finisher sees.
\<close>

definition Scopes :: "paginate_closure \<Rightarrow> 'v gorm_DB \<Rightarrow> 'v gorm_DB" where
  "Scopes c db = snd (paginate_call c db)"

definition SelectPage ::
  "('v, 't) env \<Rightarrow> ('v, 't) call list \<Rightarrow> 't Page \<Rightarrow> 'v Query option \<Rightarrow> 'v OptionFunc list
     \<Rightarrow> ('t Page \<times> 'v Query option \<times> 'v gorm_DB \<times> ('v, 't) call list) option" where
  "SelectPage e lg page q opts =
     (case SelectCount e lg q opts of
        None \<Rightarrow> None
      | Some (total', q1, countDb, lg1) \<Rightarrow>
          if Error countDb \<noteq> None then Some (page, q1, countDb, lg1)
          else (let page = page\<lparr>Total := total'\<rparr>
                in case buildCondition e q1 opts of
                     None \<Rightarrow> None
                   | Some (q2, resultDb) \<Rightarrow>
                       (let (out, resultDb, lg2) =
                              finish (executor e) lg1 FFind (Scopes (paginate page) resultDb);
                            page = page\<lparr>Records := out_rows out\<rparr>
                        in Some (page, q2, resultDb, lg2))))"

definition SelectPageModel ::
  "('v, 't) env \<Rightarrow> ('v, 't) call list \<Rightarrow> 't Page \<Rightarrow> 'v Query option \<Rightarrow> 'v OptionFunc list
     \<Rightarrow> ('t Page \<times> 'v Query option \<times> 'v gorm_DB \<times> ('v, 't) call list) option" where
  "SelectPageModel e lg page q opts =
     (case SelectCount e lg q opts of
        None \<Rightarrow> None
      | Some (total', q1, countDb, lg1) \<Rightarrow>
          if Error countDb \<noteq> None then Some (page, q1, countDb, lg1)
          else (let page = page\<lparr>Total := total'\<rparr>
                in case buildCondition e q1 opts of
                     None \<Rightarrow> None
                   | Some (q2, resultDb) \<Rightarrow>
                       (let (out, resultDb, lg2) =
                              finish (executor e) lg1 FScan (Scopes (paginate page) resultDb);
                            page = page\<lparr>Records := out_rows out\<rparr>
                        in Some (page, q2, resultDb, lg2))))"

text \<open>
  \<^verbatim>\<open>SelectPageMaps\<close> appends \<^verbatim>\<open>&m\<close> to \<^verbatim>\<open>page.Records\<close> for each result, \<^verbatim>\<open>m\<close> being
  the loop variable. \<open>Records\<close> holds what the pointers point to when the function
  returns: with one variable per iteration (Go from 1.22) that is each row; with one
  variable for the whole loop (Go before 1.22) every pointer is to the last row. The
  flag \<open>perIteration\<close> chooses between the two.
\<close>

definition appendLoopPointers :: "bool \<Rightarrow> 't list \<Rightarrow> 't list \<Rightarrow> 't list" where
  "appendLoopPointers perIteration records results =
     records @ (if perIteration then results else replicate (length results) (last results))"

definition SelectPageMaps ::
  "bool \<Rightarrow> ('v, 't) env \<Rightarrow> ('v, 't) call list \<Rightarrow> 't Page \<Rightarrow> 'v Query option \<Rightarrow> 'v OptionFunc list
     \<Rightarrow> ('t Page \<times> 'v Query option \<times> 'v gorm_DB \<times> ('v, 't) call list) option" where
  "SelectPageMaps perIteration e lg page q opts =
     (case SelectCount e lg q opts of
        None \<Rightarrow> None
      | Some (total', q1, countDb, lg1) \<Rightarrow>
          if Error countDb \<noteq> None then Some (page, q1, countDb, lg1)
          else (let page = page\<lparr>Total := total'\<rparr>
                in case buildCondition e q1 opts of
                     None \<Rightarrow> None
                   | Some (q2, resultDb) \<Rightarrow>
                       (let (out, resultDb, lg2) =
                              finish (executor e) lg1 FFind (Scopes (paginate page) resultDb);
                            page = page\<lparr>Records := appendLoopPointers perIteration (Records page) (out_rows out)\<rparr>
                        in Some (page, q2, resultDb, lg2))))"

subsection \<open>The primary key's column\<close>

text \<open>
  \<^verbatim>\<open>getPkColumnName\<close> reads the fields of the entity type by reflection and asks gorm's
  \<^verbatim>\<open>schema\<close> and \<^verbatim>\<open>utils\<close> packages about each. A struct type is the list of its fields
  in declaration order, a field its name and the value of its \<^verbatim>\<open>gorm\<close> tag; the three
  library functions and the constant \<^verbatim>\<open>constants.DefaultPrimaryName\<close> are parameters.
  Reading a key that a Go map does not hold gives the empty string.
\<close>

record StructField =
  Name :: string
  gormTag :: string

record gorm_schema =
  ParseTagSetting :: "string \<Rightarrow> string \<Rightarrow> (string \<rightharpoonup> string)"
  CheckTruth :: "string list \<Rightarrow> bool"
  ColumnName :: "string \<Rightarrow> string \<Rightarrow> string"
  DefaultPrimaryName :: string

definition index :: "(string \<rightharpoonup> string) \<Rightarrow> string \<Rightarrow> string" where
  "index m k = (case m k of None \<Rightarrow> [] | Some v \<Rightarrow> v)"

definition isPrimaryKey :: "gorm_schema \<Rightarrow> StructField \<Rightarrow> bool" where
  "isPrimaryKey lib field =
     (let tagSetting = ParseTagSetting lib (gormTag field) '';''
      in CheckTruth lib [index tagSetting ''PRIMARYKEY'', index tagSetting ''PRIMARY_KEY''])"

definition pkName :: "gorm_schema \<Rightarrow> StructField \<Rightarrow> string" where
  "pkName lib field =
     (let tagSetting = ParseTagSetting lib (gormTag field) '';''
      in case tagSetting ''COLUMN'' of
           Some name \<Rightarrow> name
         | None \<Rightarrow> ColumnName lib [] (Name field))"

text \<open>The loop over the fields, leaving at the first primary key: the value of \<^verbatim>\<open>columnName\<close>.\<close>

fun scanFields :: "gorm_schema \<Rightarrow> StructField list \<Rightarrow> string" where
  "scanFields lib [] = []"
| "scanFields lib (field # rest) =
     (if isPrimaryKey lib field then pkName lib field else scanFields lib rest)"

definition getPkColumnName :: "gorm_schema \<Rightarrow> StructField list \<Rightarrow> string" where
  "getPkColumnName lib entityType =
     (let columnName = scanFields lib entityType
      in if columnName = [] then DefaultPrimaryName lib else columnName)"

section \<open>Vocabulary of the statements\<close>

text \<open>
  The conditions of a handle are its \<^verbatim>\<open>Where\<close> clauses, in the order of the calls.
  \<open>groupArgs\<close> is what a bracket group contributes to the arguments: its own arguments
  when its text is not empty, nothing otherwise.
\<close>

fun isWhere :: "'v clause \<Rightarrow> bool" where
  "isWhere (ClWhere t a) = True"
| "isWhere (ClWhereMap m) = True"
| "isWhere _ = False"

definition whereClauses :: "'v gorm_DB \<Rightarrow> 'v clause list" where
  "whereClauses db = filter isWhere (Statement db)"

definition groupArgs :: "string \<Rightarrow> 'v list \<Rightarrow> 'v list" where
  "groupArgs builder args = (if builder \<noteq> [] then args else [])"

text \<open>
  gorm takes every \<^verbatim>\<open>?\<close> of a predicate text as a placeholder and gives it the next
  argument. \<open>placeholders\<close> counts them; \<open>bindArgs\<close> puts the arguments in their
  places, from left to right, and leaves a \<^verbatim>\<open>?\<close> that finds no argument as it is.
\<close>

definition placeholders :: "string \<Rightarrow> nat" where
  "placeholders t = length (filter (\<lambda>c. c = CHR ''?'') t)"

fun bindArgs :: "string \<Rightarrow> 'v list \<Rightarrow> (char + 'v) list" where
  "bindArgs [] args = []"
| "bindArgs (c # cs) args =
     (if c = CHR ''?''
      then (case args of [] \<Rightarrow> Inl c # bindArgs cs [] | a # as \<Rightarrow> Inr a # bindArgs cs as)
      else Inl c # bindArgs cs args)"

text \<open>
  \<open>boundArgs\<close> reads the arguments back from a bound text, from left to right: the
  \<open>i\<close>-th of them is the argument that stands at the \<open>i\<close>-th placeholder.
\<close>

fun boundArgs :: "(char + 'v) list \<Rightarrow> 'v list" where
  "boundArgs [] = []"
| "boundArgs (Inl c # bs) = boundArgs bs"
| "boundArgs (Inr v # bs) = v # boundArgs bs"

text \<open>
  A clause with a predicate text and arguments is \<open>paired\<close> when it has as many
  arguments as its text has placeholders.
\<close>

fun paired :: "'v clause \<Rightarrow> bool" where
  "paired (ClWhere t a) = (placeholders t = length a)"
| "paired (ClHaving t a) = (placeholders t = length a)"
| "paired _ = True"

subsection \<open>Example values\<close>

datatype val = VInt int | VStr string | VBool bool

fun columnOf :: "val \<Rightarrow> string" where
  "columnOf (VStr s) = s"
| "columnOf _ = []"

definition db0 :: "val gorm_DB" where
  "db0 = \<lparr>Statement = [], Error = None, RowsAffected = 0\<rparr>"

definition answers :: "go_error \<Rightarrow> int64 \<Rightarrow> int64 \<Rightarrow> nat list \<Rightarrow> (val, nat) executor" where
  "answers err n cnt rows lg c =
     \<lparr>out_Error = err, out_RowsAffected = n, out_count = cnt, out_rows = rows\<rparr>"

definition envWith :: "(val, nat) executor \<Rightarrow> (val, nat) env" where
  "envWith ex = \<lparr>globalDb = Some db0, getColumnName = columnOf, executor = ex\<rparr>"

text \<open>
  A builder with the root term \<^verbatim>\<open>status = ?\<close>, an AND-group of two terms and an
  OR-group of one, and the same builder without its root term.
\<close>

definition qSpec :: "val Query" where
  "qSpec = \<lparr>SelectColumns = [], DistinctColumns = [],
     QueryBuilder = ''status = ? '',
     OrBracketBuilder = ''OR (vip = ? ) '', OrBracketArgs = [VBool True],
     AndBracketBuilder = ''AND (city = ? AND zip = ? ) '',
     AndBracketArgs = [VStr ''NY'', VStr ''10001''],
     QueryArgs = [VInt 1],
     OrderBuilder = [], GroupBuilder = [], HavingBuilder = [], HavingArgs = [],
     ConditionMap = []\<rparr>"

definition qRootless :: "val Query" where
  "qRootless = qSpec\<lparr>QueryBuilder := [], QueryArgs := []\<rparr>"

text \<open>
  A page that an earlier call has filled, and the handle \<^verbatim>\<open>buildCondition\<close> makes from
  \<open>db0\<close> for a nil query.
\<close>

definition pageUsed :: "nat Page" where
  "pageUsed = \<lparr>Current = 2, Size = 10, Total = 11, Records = [7]\<rparr>"

definition dbModel :: "val gorm_DB" where
  "dbModel = \<lparr>Statement = [ClModel], Error = None, RowsAffected = 0\<rparr>"

text \<open>
  The library functions on the tags of the examples: \<open>tagsEx\<close> lists what gorm's
  \<^verbatim>\<open>ParseTagSetting\<close> gives for them (a key without a value is its own value, and
  \<^verbatim>\<open>column:\<close> gives the key \<^verbatim>\<open>COLUMN\<close> the empty value), \<open>truthEx\<close> is
  \<^verbatim>\<open>CheckTruth\<close> on them, and \<open>snakeEx\<close> the column names of the naming strategy for
  the field names used.
\<close>

definition tagsEx :: "string \<Rightarrow> string \<Rightarrow> (string \<rightharpoonup> string)" where
  "tagsEx tag sep =
     (if tag = ''primaryKey'' then [''PRIMARYKEY'' \<mapsto> ''PRIMARYKEY'']
      else if tag = ''primaryKey;column:uid''
        then [''PRIMARYKEY'' \<mapsto> ''PRIMARYKEY'', ''COLUMN'' \<mapsto> ''uid'']
      else if tag = ''primaryKey;column:''
        then [''PRIMARYKEY'' \<mapsto> ''PRIMARYKEY'', ''COLUMN'' \<mapsto> []]
      else if tag = ''column:full_name'' then [''COLUMN'' \<mapsto> ''full_name'']
      else Map.empty)"

definition truthEx :: "string list \<Rightarrow> bool" where
  "truthEx vals = list_ex (\<lambda>v. v \<noteq> [] \<and> v \<noteq> ''false'') vals"

definition snakeEx :: "string \<Rightarrow> string \<Rightarrow> string" where
  "snakeEx table name =
     (if name = ''UserID'' then ''user_id'' else if name = ''Name'' then ''name'' else name)"

definition libEx :: gorm_schema where
  "libEx = \<lparr>ParseTagSetting = tagsEx, CheckTruth = truthEx, ColumnName = snakeEx,
            DefaultPrimaryName = ''id''\<rparr>"

section \<open>Properties\<close>

subsection \<open>Handles\<close>

lemma Statement_chain [simp]: "Statement (chain c db) = Statement db @ [c]"
  by (simp add: chain_def)

lemma Error_chain [simp]: "Error (chain c db) = Error db"
  by (simp add: chain_def)

lemma RowsAffected_chain [simp]: "RowsAffected (chain c db) = RowsAffected db"
  by (simp add: chain_def)

lemma whereClauses_chain [simp]:
  "whereClauses (chain c db) = whereClauses db @ (if isWhere c then [c] else [])"
  by (simp add: whereClauses_def)

lemma getDb_eq_None: "getDb e opts = None \<longleftrightarrow> globalDb e = None"
  by (simp add: getDb_def Let_def split: option.splits)

lemma getDb_Some:
  "globalDb e = Some g \<Longrightarrow>
   getDb e opts =
     (let config = fold (\<lambda>op c. op c) opts \<lparr>Db = None, Selects = [], Omits = []\<rparr>
      in Some (setSelectIfNeed e config (setOmitIfNeed e config
                (case Db config of None \<Rightarrow> g | Some d \<Rightarrow> d))))"
  by (simp add: getDb_def Clauses_def Let_def split: option.splits)

lemma Error_setIfNeed: "Error (setSelectIfNeed e config (setOmitIfNeed e config' db)) = Error db"
  by (simp add: setSelectIfNeed_def setOmitIfNeed_def)

lemma getDb_envWith [simp]: "getDb (envWith ex) [] = Some db0"
  by (simp add: getDb_def envWith_def Clauses_def setOmitIfNeed_def setSelectIfNeed_def)

subsection \<open>Pagination\<close>

lemma sint_pred_pos: "0 < sint (c :: go_int) \<Longrightarrow> sint (c - 1) = sint c - 1"
proof -
  assume pos: "0 < sint c"
  have "sint c < 2 ^ 63"
    using sint_lt [of c] by simp
  with pos have "signed_take_bit 63 (sint c - 1) = sint c - 1"
    by (intro signed_take_bit_int_eq_self) simp_all
  then show ?thesis
    by (simp add: sint_word_ariths)
qed

lemma sint_mult_fits:
  "- (2 ^ 63) \<le> sint a * sint b \<Longrightarrow> sint a * sint b < 2 ^ 63
     \<Longrightarrow> sint (a * b :: go_int) = sint a * sint b"
  by (simp add: sint_word_ariths signed_take_bit_int_eq_self)

lemma sint_offset_fits:
  assumes "0 < sint (c :: go_int)" and "0 < sint (s :: go_int)"
    and "(sint c - 1) * sint s < 2 ^ 63"
  shows "sint ((c - 1) * s) = (sint c - 1) * sint s"
proof -
  have pred: "sint (c - 1) = sint c - 1"
    using assms(1) by (rule sint_pred_pos)
  have "0 \<le> (sint c - 1) * sint s"
    using assms(1,2) by simp
  then have "- (2 ^ 63) \<le> sint (c - 1) * sint s"
    by (simp add: pred)
  moreover have "sint (c - 1) * sint s < 2 ^ 63"
    using assms(3) by (simp add: pred)
  ultimately show ?thesis
    by (simp add: sint_mult_fits pred)
qed

text \<open>
  C4. The pagination computation takes \<open>Current\<close> as 1 when it is at most 0 and
  \<open>Size\<close> as 10 when it is at most 0, and adds the offset
  \<open>(current - 1) * size\<close> and the limit \<open>size\<close> to the handle, touching nothing else; it
  is a total function. The product is Go's: it is the product of the integers whenever
  that is below \<open>2 ^ 63\<close>, and wraps around otherwise.
\<close>

theorem paginate_offset_limit:
  "(let current = (if Current p <=s 0 then 1 else Current p);
        pageSize = (if Size p <=s 0 then 10 else Size p)
    in paginate_call (paginate p) db =
         (\<lparr>cl_page = current, cl_pageSize = pageSize\<rparr>,
          db\<lparr>Statement := Statement db @ [ClOffset ((current - 1) * pageSize), ClLimit pageSize]\<rparr>)
       \<and> 0 < sint current \<and> 0 < sint pageSize
       \<and> ((sint current - 1) * sint pageSize < 2 ^ 63
            \<longrightarrow> sint ((current - 1) * pageSize) = (sint current - 1) * sint pageSize))"
proof -
  define current where "current = (if Current p <=s 0 then 1 else Current p)"
  define pageSize where "pageSize = (if Size p <=s 0 then 10 else Size p)"
  have c: "0 < sint current"
    by (auto simp: current_def word_sle_eq)
  have s: "0 < sint pageSize"
    by (auto simp: pageSize_def word_sle_eq)
  have run: "paginate_call (paginate p) db =
         (\<lparr>cl_page = current, cl_pageSize = pageSize\<rparr>,
          db\<lparr>Statement := Statement db @ [ClOffset ((current - 1) * pageSize), ClLimit pageSize]\<rparr>)"
    by (simp add: paginate_call_def paginate_def chain_def Let_def current_def pageSize_def)
  have fits: "(sint current - 1) * sint pageSize < 2 ^ 63
      \<longrightarrow> sint ((current - 1) * pageSize) = (sint current - 1) * sint pageSize"
    using sint_offset_fits [OF c s] by blast
  from run c s fits show ?thesis
    unfolding Let_def current_def pageSize_def by blast
qed

theorem paginate_offset_limit_witness:
  "paginate_call (paginate (NewPage 2 10 :: nat Page)) db0 =
     (\<lparr>cl_page = 2, cl_pageSize = 10\<rparr>, db0\<lparr>Statement := [ClOffset 10, ClLimit 10]\<rparr>)
   \<and> sint ((2 - 1) * 10 :: go_int) = (2 - 1) * 10
   \<and> paginate_call (paginate (NewPage (- 3) 0 :: nat Page)) db0 =
     (\<lparr>cl_page = 1, cl_pageSize = 10\<rparr>, db0\<lparr>Statement := [ClOffset 0, ClLimit 10]\<rparr>)"
  using paginate_offset_limit [of "NewPage 2 10 :: nat Page" db0]
    paginate_offset_limit [of "NewPage (- 3) 0 :: nat Page" db0]
  by (simp add: NewPage_def db0_def word_sle_eq)

lemma envWith_simps [simp]:
  "globalDb (envWith ex) = Some db0"
  "getColumnName (envWith ex) = columnOf"
  "executor (envWith ex) = ex"
  by (simp_all add: envWith_def)

subsection \<open>Batch inserts\<close>

text \<open>
  C7. With the global handle set, \<^verbatim>\<open>InsertBatch\<close> and \<^verbatim>\<open>InsertBatchSize\<close> on an empty
  list return the handle that \<^verbatim>\<open>getDb\<close> resolved, as it is, and leave the log as it
  was: no create call is issued, and the handle's error is the one of the handle it was
  resolved from (the option's, or else the global one).
\<close>

theorem InsertBatch_empty:
  assumes "globalDb e = Some g"
  shows "\<exists>db. getDb e opts = Some db
           \<and> InsertBatch e lg [] opts = Some (db, lg)
           \<and> InsertBatchSize e lg [] batchSize opts = Some (db, lg)
           \<and> Error db =
               Error (case Db (fold (\<lambda>op c. op c) opts \<lparr>Db = None, Selects = [], Omits = []\<rparr>) of
                        None \<Rightarrow> g
                      | Some d \<Rightarrow> d)"
  using getDb_Some [OF assms, of opts]
  by (simp add: InsertBatch_def InsertBatchSize_def Let_def Error_setIfNeed)

theorem InsertBatch_empty_witness:
  "\<exists>db. getDb (envWith (answers None 0 0 [])) [] = Some db
      \<and> InsertBatch (envWith (answers None 0 0 [])) [] [] [] = Some (db, [])
      \<and> InsertBatchSize (envWith (answers None 0 0 [])) [] [] 50 [] = Some (db, [])
      \<and> Error db = None"
  using InsertBatch_empty [of "envWith (answers None 0 0 [])" db0 "[]" "[]" 50]
  by (simp add: db0_def)

text \<open>
  C8. On a list that is not empty, \<^verbatim>\<open>InsertBatchSize\<close> issues one
  \<^verbatim>\<open>CreateInBatches\<close> call whose size is the caller's when that is positive and the
  default 1000 otherwise; \<^verbatim>\<open>InsertBatch\<close> issues the same call with 1000. So with a
  size of at most 0 the two functions agree.
\<close>

theorem InsertBatchSize_default:
  assumes "getDb e opts = Some db" and "entities \<noteq> []"
  shows "(let n = (if batchSize <=s 0 then 1000 else batchSize);
              out = executor e lg (FCreateInBatches entities n, db)
          in InsertBatchSize e lg entities batchSize opts =
               Some (db\<lparr>Error := out_Error out, RowsAffected := out_RowsAffected out\<rparr>,
                     lg @ [(FCreateInBatches entities n, db)]))
         \<and> (let out = executor e lg (FCreateInBatches entities 1000, db)
             in InsertBatch e lg entities opts =
                  Some (db\<lparr>Error := out_Error out, RowsAffected := out_RowsAffected out\<rparr>,
                        lg @ [(FCreateInBatches entities 1000, db)]))
         \<and> (batchSize <=s 0 \<longrightarrow>
              InsertBatchSize e lg entities batchSize opts = InsertBatch e lg entities opts)"
  using assms
  by (simp add: InsertBatchSize_def InsertBatch_def finish_def Let_def defaultBatchSize_def)

theorem InsertBatchSize_default_witness:
  "InsertBatchSize (envWith (answers None 3 0 [])) [] [4, 5, 6] 0 [] =
     Some (db0\<lparr>RowsAffected := 3\<rparr>, [(FCreateInBatches [4, 5, 6] 1000, db0)])
   \<and> InsertBatchSize (envWith (answers None 3 0 [])) [] [4, 5, 6] 0 [] =
       InsertBatch (envWith (answers None 3 0 [])) [] [4, 5, 6] []
   \<and> InsertBatchSize (envWith (answers None 3 0 [])) [] [4, 5, 6] 2 [] =
     Some (db0\<lparr>RowsAffected := 3\<rparr>, [(FCreateInBatches [4, 5, 6] 2, db0)])"
  using InsertBatchSize_default [of "envWith (answers None 3 0 [])" "[]" db0 "[4, 5, 6]" 0 "[]"]
    InsertBatchSize_default [of "envWith (answers None 3 0 [])" "[]" db0 "[4, 5, 6]" 2 "[]"]
  by (simp add: answers_def db0_def word_sle_eq)

subsection \<open>Compiling the conditions\<close>

lemma fst_applyQuery:
  "fst (applyQuery e q db) = (if QueryBuilder q \<noteq> [] then appendOrBracket (appendAndBracket q) else q)"
  by (simp add: applyQuery_def Let_def split_def)

lemma appendBrackets_eq:
  "appendOrBracket (appendAndBracket q) =
     q\<lparr>QueryArgs := QueryArgs q @ groupArgs (AndBracketBuilder q) (AndBracketArgs q)
                       @ groupArgs (OrBracketBuilder q) (OrBracketArgs q),
        QueryBuilder := QueryBuilder q @ AndBracketBuilder q @ OrBracketBuilder q\<rparr>"
  by (simp add: appendOrBracket_def appendAndBracket_def groupArgs_def)

lemma Statement_applyQuery:
  "Statement (snd (applyQuery e q db)) =
     Statement db
     @ (if DistinctColumns q \<noteq> [] then [ClDistinct (DistinctColumns q)] else [])
     @ (if SelectColumns q \<noteq> [] then [ClSelect (SelectColumns q)] else [])
     @ (if QueryBuilder q \<noteq> []
        then [ClWhere (QueryBuilder q @ AndBracketBuilder q @ OrBracketBuilder q)
                (QueryArgs q @ groupArgs (AndBracketBuilder q) (AndBracketArgs q)
                   @ groupArgs (OrBracketBuilder q) (OrBracketArgs q))]
        else [])
     @ (if ConditionMap q \<noteq> [] then [ClWhereMap (resolveConditionMap e (ConditionMap q))] else [])
     @ (if OrderBuilder q \<noteq> [] then [ClOrder (OrderBuilder q)] else [])
     @ (if GroupBuilder q \<noteq> [] then [ClGroup (GroupBuilder q)] else [])
     @ (if HavingBuilder q \<noteq> [] then [ClHaving (HavingBuilder q) (HavingArgs q)] else [])"
  by (simp add: applyQuery_def Let_def split_def appendBrackets_eq)

lemma whereClauses_applyQuery:
  "whereClauses (snd (applyQuery e q db)) =
     whereClauses db
     @ (if QueryBuilder q \<noteq> []
        then [ClWhere (QueryBuilder q @ AndBracketBuilder q @ OrBracketBuilder q)
                (QueryArgs q @ groupArgs (AndBracketBuilder q) (AndBracketArgs q)
                   @ groupArgs (OrBracketBuilder q) (OrBracketArgs q))]
        else [])
     @ (if ConditionMap q \<noteq> [] then [ClWhereMap (resolveConditionMap e (ConditionMap q))] else [])"
  by (simp add: whereClauses_def Statement_applyQuery)

lemma Error_applyQuery [simp]: "Error (snd (applyQuery e q db)) = Error db"
  by (simp add: applyQuery_def Let_def split_def)

lemma buildCondition_Some:
  "getDb e opts = Some db \<Longrightarrow>
   buildCondition e (Some q) opts =
     Some (Some (fst (applyQuery e q (chain ClModel db))), snd (applyQuery e q (chain ClModel db)))"
  by (simp add: buildCondition_def Let_def split_def)

lemma buildCondition_eq_None: "buildCondition e q opts = None \<longleftrightarrow> globalDb e = None"
proof (cases "getDb e opts")
  case None
  then show ?thesis
    using getDb_eq_None [of e opts] by (simp add: buildCondition_def)
next
  case (Some db)
  then have "globalDb e \<noteq> None"
    using getDb_eq_None [of e opts] by simp
  with Some show ?thesis
    by (simp add: buildCondition_def Let_def split_def split: option.splits)
qed

lemma fold_upd_map_of:
  "fold (\<lambda>(k, v) condMap. condMap(f k \<mapsto> v)) entries m =
     m ++ map_of (rev (map (\<lambda>(k, v). (f k, v)) entries))"
  by (induction entries arbitrary: m) (auto simp: split_def map_add_upd_left)

lemma resolveConditionMap_map_of:
  "resolveConditionMap e entries = map_of (rev (map (\<lambda>(k, v). (getColumnName e k, v)) entries))"
  by (simp add: resolveConditionMap_def fold_upd_map_of)

text \<open>
  C1, as the code has it. With a handle resolved, \<^verbatim>\<open>buildCondition\<close> adds these
  conditions to it, in this order. When the root text is not empty: one predicate whose
  text is the root text, then the AND-group's text, then the OR-group's text, and whose
  arguments are the root's, then those of the AND-group if its text is not empty, then
  those of the OR-group if its text is not empty. Then, when the equality map is not
  empty: the map with its keys resolved to columns (of two entries on one column, the one
  visited last stays). When the root text is empty no predicate is added, and the two
  groups are left out.
\<close>

theorem buildCondition_where:
  assumes "getDb e opts = Some db"
  shows "\<exists>q' r. buildCondition e (Some q) opts = Some (Some q', r)
     \<and> whereClauses r =
         whereClauses db
         @ (if QueryBuilder q \<noteq> []
            then [ClWhere (QueryBuilder q @ AndBracketBuilder q @ OrBracketBuilder q)
                    (QueryArgs q @ groupArgs (AndBracketBuilder q) (AndBracketArgs q)
                       @ groupArgs (OrBracketBuilder q) (OrBracketArgs q))]
            else [])
         @ (if ConditionMap q \<noteq> []
            then [ClWhereMap (map_of (rev (map (\<lambda>(k, v). (getColumnName e k, v)) (ConditionMap q))))]
            else [])"
  using assms
  by (simp add: buildCondition_Some whereClauses_applyQuery resolveConditionMap_map_of)

theorem buildCondition_where_witness:
  "\<exists>q' r. buildCondition (envWith (answers None 0 0 []))
             (Some (qSpec\<lparr>ConditionMap := [(VStr ''name'', VStr ''Tom'')]\<rparr>)) [] = Some (Some q', r)
     \<and> whereClauses r =
         [ClWhere ''status = ? AND (city = ? AND zip = ? ) OR (vip = ? ) ''
            [VInt 1, VStr ''NY'', VStr ''10001'', VBool True],
          ClWhereMap [''name'' \<mapsto> VStr ''Tom'']]"
  using buildCondition_where [of "envWith (answers None 0 0 [])" "[]" db0
      "qSpec\<lparr>ConditionMap := [(VStr ''name'', VStr ''Tom'')]\<rparr>"]
  by (simp add: qSpec_def groupArgs_def whereClauses_def db0_def)

text \<open>
  C1, as the claim has it, fails on a builder whose root text is empty: both groups hold
  a clause and arguments, and the compiled handle carries no condition at all.
\<close>

theorem buildCondition_rootless_counterexample:
  "AndBracketBuilder qRootless \<noteq> [] \<and> AndBracketArgs qRootless \<noteq> []
   \<and> OrBracketBuilder qRootless \<noteq> [] \<and> OrBracketArgs qRootless \<noteq> []
   \<and> buildCondition (envWith (answers None 0 0 [])) (Some qRootless) [] =
       Some (Some qRootless, db0\<lparr>Statement := [ClModel]\<rparr>)"
  by (simp add: buildCondition_def applyQuery_def qRootless_def qSpec_def Let_def db0_def chain_def)

subsection \<open>Placeholders and arguments\<close>

lemma placeholders_append [simp]: "placeholders (s @ t) = placeholders s + placeholders t"
  by (simp add: placeholders_def)

lemma placeholders_Nil [simp]: "placeholders [] = 0"
  by (simp add: placeholders_def)

lemma bindArgs_append:
  "placeholders t1 = length a1 \<Longrightarrow> bindArgs (t1 @ t2) (a1 @ a2) = bindArgs t1 a1 @ bindArgs t2 a2"
proof (induction t1 arbitrary: a1)
  case Nil
  then show ?case by simp
next
  case (Cons c cs)
  show ?case
  proof (cases "c = CHR ''?''")
    case True
    with Cons.prems obtain a as where a1: "a1 = a # as" and "placeholders cs = length as"
      by (cases a1) (auto simp: placeholders_def)
    with Cons.IH [of as] True show ?thesis by simp
  next
    case False
    with Cons.prems have "placeholders cs = length a1"
      by (simp add: placeholders_def)
    with Cons.IH [of a1] False show ?thesis by simp
  qed
qed

lemma bindArgs_complete:
  "placeholders t = length a \<Longrightarrow>
     boundArgs (bindArgs t a) = a \<and> Inl CHR ''?'' \<notin> set (bindArgs t a)"
proof (induction t arbitrary: a)
  case Nil
  then show ?case by simp
next
  case (Cons c cs)
  show ?case
  proof (cases "c = CHR ''?''")
    case True
    with Cons.prems obtain x xs where a: "a = x # xs" and "placeholders cs = length xs"
      by (cases a) (auto simp: placeholders_def)
    with Cons.IH [of xs] True show ?thesis by simp
  next
    case False
    with Cons.prems have "placeholders cs = length a"
      by (simp add: placeholders_def)
    with Cons.IH [of a] False show ?thesis by simp
  qed
qed

lemma groupArgs_paired: "placeholders b = length args \<Longrightarrow> groupArgs b args = args"
  by (auto simp: groupArgs_def)

text \<open>
  C2. Let the root, the AND-group, the OR-group and the having component of a builder
  each hold as many arguments as placeholders. Then every predicate that
  \<^verbatim>\<open>buildCondition\<close> adds to the handle has as many arguments as its text has
  placeholders, and so has the builder as the call leaves it. In the compiled predicate
  the arguments meet the placeholders from left to right: every placeholder gets an
  argument, the arguments read back from the places are the argument sequence, and
  binding them gives the root text with the root's arguments, then the AND-group's text
  with its arguments, then the OR-group's text with its arguments.
\<close>

theorem buildCondition_placeholders:
  assumes db: "getDb e opts = Some db"
    and root: "placeholders (QueryBuilder q) = length (QueryArgs q)"
    and andg: "placeholders (AndBracketBuilder q) = length (AndBracketArgs q)"
    and org: "placeholders (OrBracketBuilder q) = length (OrBracketArgs q)"
    and hav: "placeholders (HavingBuilder q) = length (HavingArgs q)"
  shows "\<exists>q' r added. buildCondition e (Some q) opts = Some (Some q', r)
      \<and> Statement r = Statement db @ added \<and> list_all paired added
      \<and> placeholders (QueryBuilder q') = length (QueryArgs q')
      \<and> boundArgs (bindArgs (QueryBuilder q') (QueryArgs q')) = QueryArgs q'
      \<and> Inl CHR ''?'' \<notin> set (bindArgs (QueryBuilder q') (QueryArgs q'))
      \<and> (QueryBuilder q \<noteq> [] \<longrightarrow>
            ClWhere (QueryBuilder q') (QueryArgs q') \<in> set added
            \<and> bindArgs (QueryBuilder q') (QueryArgs q') =
                bindArgs (QueryBuilder q) (QueryArgs q)
                @ bindArgs (AndBracketBuilder q) (AndBracketArgs q)
                @ bindArgs (OrBracketBuilder q) (OrBracketArgs q))
      \<and> (HavingBuilder q \<noteq> [] \<longrightarrow> ClHaving (HavingBuilder q) (HavingArgs q) \<in> set added)"
proof -
  let ?r = "snd (applyQuery e q (chain ClModel db))"
  let ?q = "fst (applyQuery e q (chain ClModel db))"
  have ga: "groupArgs (AndBracketBuilder q) (AndBracketArgs q) = AndBracketArgs q"
    using andg by (rule groupArgs_paired)
  have go: "groupArgs (OrBracketBuilder q) (OrBracketArgs q) = OrBracketArgs q"
    using org by (rule groupArgs_paired)
  have bind: "bindArgs (QueryBuilder q @ AndBracketBuilder q @ OrBracketBuilder q)
                (QueryArgs q @ AndBracketArgs q @ OrBracketArgs q) =
              bindArgs (QueryBuilder q) (QueryArgs q)
                @ bindArgs (AndBracketBuilder q) (AndBracketArgs q)
                @ bindArgs (OrBracketBuilder q) (OrBracketArgs q)"
    using root andg by (simp add: bindArgs_append)
  have built: "buildCondition e (Some q) opts = Some (Some ?q, ?r)"
    using db by (rule buildCondition_Some)
  have stmt: "Statement ?r = Statement db @ drop (length (Statement db)) (Statement ?r)"
    by (simp add: Statement_applyQuery)
  have all: "list_all paired (drop (length (Statement db)) (Statement ?r))"
    using root andg org hav by (simp add: Statement_applyQuery ga go)
  have q': "placeholders (QueryBuilder ?q) = length (QueryArgs ?q)"
    using root andg org by (auto simp: fst_applyQuery appendBrackets_eq ga go)
  have wh: "QueryBuilder q \<noteq> [] \<longrightarrow>
      ClWhere (QueryBuilder ?q) (QueryArgs ?q) \<in> set (drop (length (Statement db)) (Statement ?r))
      \<and> bindArgs (QueryBuilder ?q) (QueryArgs ?q) =
                bindArgs (QueryBuilder q) (QueryArgs q)
                @ bindArgs (AndBracketBuilder q) (AndBracketArgs q)
                @ bindArgs (OrBracketBuilder q) (OrBracketArgs q)"
    using bind by (simp add: Statement_applyQuery fst_applyQuery appendBrackets_eq ga go)
  have hv: "HavingBuilder q \<noteq> [] \<longrightarrow>
      ClHaving (HavingBuilder q) (HavingArgs q) \<in> set (drop (length (Statement db)) (Statement ?r))"
    by (simp add: Statement_applyQuery)
  have bound: "boundArgs (bindArgs (QueryBuilder ?q) (QueryArgs ?q)) = QueryArgs ?q
      \<and> Inl CHR ''?'' \<notin> set (bindArgs (QueryBuilder ?q) (QueryArgs ?q))"
    using q' by (rule bindArgs_complete)
  from built stmt all q' bound wh hv show ?thesis
    by blast
qed

lemma qSpec_simps [simp]:
  "QueryBuilder qSpec = ''status = ? ''" "QueryArgs qSpec = [VInt 1]"
  "AndBracketBuilder qSpec = ''AND (city = ? AND zip = ? ) ''"
  "AndBracketArgs qSpec = [VStr ''NY'', VStr ''10001'']"
  "OrBracketBuilder qSpec = ''OR (vip = ? ) ''" "OrBracketArgs qSpec = [VBool True]"
  "HavingBuilder qSpec = []" "HavingArgs qSpec = []"
  "ConditionMap qSpec = []" "DistinctColumns qSpec = []" "SelectColumns qSpec = []"
  "OrderBuilder qSpec = []" "GroupBuilder qSpec = []"
  by (simp_all add: qSpec_def)

theorem buildCondition_placeholders_witness:
  "\<exists>q' r added. buildCondition (envWith (answers None 0 0 [])) (Some qSpec) [] = Some (Some q', r)
      \<and> Statement r = Statement db0 @ added \<and> list_all paired added
      \<and> placeholders (QueryBuilder q') = length (QueryArgs q')
      \<and> boundArgs (bindArgs (QueryBuilder q') (QueryArgs q')) = QueryArgs q'
      \<and> ClWhere (QueryBuilder q') (QueryArgs q') \<in> set added
      \<and> bindArgs (QueryBuilder q') (QueryArgs q') =
          bindArgs ''status = ? '' [VInt 1]
          @ bindArgs ''AND (city = ? AND zip = ? ) '' [VStr ''NY'', VStr ''10001'']
          @ bindArgs ''OR (vip = ? ) '' [VBool True]"
proof -
  have "placeholders (QueryBuilder qSpec) = length (QueryArgs qSpec)"
    and "placeholders (AndBracketBuilder qSpec) = length (AndBracketArgs qSpec)"
    and "placeholders (OrBracketBuilder qSpec) = length (OrBracketArgs qSpec)"
    and "placeholders (HavingBuilder qSpec) = length (HavingArgs qSpec)"
    by (simp_all add: placeholders_def)
  from buildCondition_placeholders [OF getDb_envWith this]
  obtain q' r added where
    "buildCondition (envWith (answers None 0 0 [])) (Some qSpec) [] = Some (Some q', r)"
    "Statement r = Statement db0 @ added" "list_all paired added"
    "placeholders (QueryBuilder q') = length (QueryArgs q')"
    "boundArgs (bindArgs (QueryBuilder q') (QueryArgs q')) = QueryArgs q'"
    "QueryBuilder qSpec \<noteq> [] \<longrightarrow>
            ClWhere (QueryBuilder q') (QueryArgs q') \<in> set added
            \<and> bindArgs (QueryBuilder q') (QueryArgs q') =
                bindArgs (QueryBuilder qSpec) (QueryArgs qSpec)
                @ bindArgs (AndBracketBuilder qSpec) (AndBracketArgs qSpec)
                @ bindArgs (OrBracketBuilder qSpec) (OrBracketArgs qSpec)"
    by blast
  moreover have "QueryBuilder qSpec \<noteq> []"
    by simp
  ultimately show ?thesis
    unfolding qSpec_simps by blast
qed

subsection \<open>Counting and paging\<close>

lemma SelectCount_eq:
  assumes "buildCondition e q opts = Some (q1, cdb)"
  shows "SelectCount e lg q opts =
     Some (out_count (executor e lg (FCount, cdb)), q1,
           cdb\<lparr>Error := out_Error (executor e lg (FCount, cdb)),
               RowsAffected := out_RowsAffected (executor e lg (FCount, cdb))\<rparr>,
           lg @ [(FCount, cdb)])"
  using assms by (simp add: SelectCount_def finish_def Let_def)

lemma paginate_Total [simp]: "paginate (page\<lparr>Total := t\<rparr>) = paginate page"
  by (simp add: paginate_def)

lemma SelectPage_error:
  assumes "buildCondition e q opts = Some (q1, cdb)"
    and "out_Error (executor e lg (FCount, cdb)) \<noteq> None"
  shows "SelectPage e lg page q opts =
     Some (page, q1,
           cdb\<lparr>Error := out_Error (executor e lg (FCount, cdb)),
               RowsAffected := out_RowsAffected (executor e lg (FCount, cdb))\<rparr>,
           lg @ [(FCount, cdb)])"
  using assms by (simp add: SelectPage_def SelectCount_eq)

lemma SelectPage_ok:
  assumes "buildCondition e q opts = Some (q1, cdb)"
    and "out_Error (executor e lg (FCount, cdb)) = None"
    and "buildCondition e q1 opts = Some (q2, rdb)"
  shows "SelectPage e lg page q opts =
     (let sdb = Scopes (paginate page) rdb;
          out = executor e (lg @ [(FCount, cdb)]) (FFind, sdb)
      in Some (page\<lparr>Total := out_count (executor e lg (FCount, cdb)), Records := out_rows out\<rparr>, q2,
               sdb\<lparr>Error := out_Error out, RowsAffected := out_RowsAffected out\<rparr>,
               lg @ [(FCount, cdb), (FFind, sdb)]))"
  using assms by (simp add: SelectPage_def SelectCount_eq finish_def Let_def)

lemma SelectPageModel_error:
  assumes "buildCondition e q opts = Some (q1, cdb)"
    and "out_Error (executor e lg (FCount, cdb)) \<noteq> None"
  shows "SelectPageModel e lg page q opts =
     Some (page, q1,
           cdb\<lparr>Error := out_Error (executor e lg (FCount, cdb)),
               RowsAffected := out_RowsAffected (executor e lg (FCount, cdb))\<rparr>,
           lg @ [(FCount, cdb)])"
  using assms by (simp add: SelectPageModel_def SelectCount_eq)

lemma SelectPageMaps_error:
  assumes "buildCondition e q opts = Some (q1, cdb)"
    and "out_Error (executor e lg (FCount, cdb)) \<noteq> None"
  shows "SelectPageMaps perIteration e lg page q opts =
     Some (page, q1,
           cdb\<lparr>Error := out_Error (executor e lg (FCount, cdb)),
               RowsAffected := out_RowsAffected (executor e lg (FCount, cdb))\<rparr>,
           lg @ [(FCount, cdb)])"
  using assms by (simp add: SelectPageMaps_def SelectCount_eq)

lemma SelectPageModel_ok:
  assumes "buildCondition e q opts = Some (q1, cdb)"
    and "out_Error (executor e lg (FCount, cdb)) = None"
    and "buildCondition e q1 opts = Some (q2, rdb)"
  shows "SelectPageModel e lg page q opts =
     (let sdb = Scopes (paginate page) rdb;
          out = executor e (lg @ [(FCount, cdb)]) (FScan, sdb)
      in Some (page\<lparr>Total := out_count (executor e lg (FCount, cdb)), Records := out_rows out\<rparr>, q2,
               sdb\<lparr>Error := out_Error out, RowsAffected := out_RowsAffected out\<rparr>,
               lg @ [(FCount, cdb), (FScan, sdb)]))"
  using assms by (simp add: SelectPageModel_def SelectCount_eq finish_def Let_def)

lemma SelectPageMaps_ok:
  assumes "buildCondition e q opts = Some (q1, cdb)"
    and "out_Error (executor e lg (FCount, cdb)) = None"
    and "buildCondition e q1 opts = Some (q2, rdb)"
  shows "SelectPageMaps perIteration e lg page q opts =
     (let sdb = Scopes (paginate page) rdb;
          out = executor e (lg @ [(FCount, cdb)]) (FFind, sdb)
      in Some (page\<lparr>Total := out_count (executor e lg (FCount, cdb)),
                    Records := appendLoopPointers perIteration (Records page) (out_rows out)\<rparr>, q2,
               sdb\<lparr>Error := out_Error out, RowsAffected := out_RowsAffected out\<rparr>,
               lg @ [(FCount, cdb), (FFind, sdb)]))"
  using assms by (simp add: SelectPageMaps_def SelectCount_eq finish_def Let_def)

lemma buildCondition_again:
  assumes "buildCondition e q opts = Some (q1, cdb)"
  shows "\<exists>q2 rdb. buildCondition e q' opts = Some (q2, rdb)"
proof -
  from assms have "globalDb e \<noteq> None"
    using buildCondition_eq_None [of e q opts] by simp
  then have "buildCondition e q' opts \<noteq> None"
    by (simp add: buildCondition_eq_None)
  then show ?thesis by auto
qed

lemma buildCondition_envWith_nil [simp]:
  "buildCondition (envWith ex) None [] = Some (None, dbModel)"
  by (simp add: buildCondition_def dbModel_def db0_def chain_def)

lemma Statement_Scopes:
  "Statement (Scopes c db) =
     Statement db @ [ClOffset (((if cl_page c <=s 0 then 1 else cl_page c) - 1)
                        * (if cl_pageSize c <=s 0 then 10 else cl_pageSize c)),
                     ClLimit (if cl_pageSize c <=s 0 then 10 else cl_pageSize c)]"
  by (simp add: Scopes_def paginate_call_def Let_def)

text \<open>
  C3, as the code has it. \<^verbatim>\<open>SelectPage\<close>, \<^verbatim>\<open>SelectPageModel\<close> and
  \<^verbatim>\<open>SelectPageMaps\<close> first issue the count on the compiled handle. If the count sets
  an error, they return the page as it was at entry (\<open>Records\<close> and \<open>Total\<close> untouched:
  empty and zero for a page fresh from \<^verbatim>\<open>NewPage\<close>) with the count's handle, and the
  count is the only call in the log. Otherwise \<open>Total\<close> is the count and one data query
  (\<^verbatim>\<open>Find\<close>, or \<^verbatim>\<open>Scan\<close> for the Model variant) follows the count in the log, on a
  handle whose last clauses are the page's offset and limit; \<^verbatim>\<open>SelectPage\<close> and
  \<^verbatim>\<open>SelectPageModel\<close> set \<open>Records\<close> to the rows it returned.
\<close>

theorem SelectPage_count_first:
  assumes built: "buildCondition e q opts = Some (q1, cdb)"
  shows "(let cnt = executor e lg (FCount, cdb);
              counted = cdb\<lparr>Error := out_Error cnt, RowsAffected := out_RowsAffected cnt\<rparr>;
              lg1 = lg @ [(FCount, cdb)];
              pageSize = (if Size page <=s 0 then 10 else Size page);
              offset = ((if Current page <=s 0 then 1 else Current page) - 1) * pageSize
          in (out_Error cnt \<noteq> None \<longrightarrow>
                SelectPage e lg page q opts = Some (page, q1, counted, lg1)
                \<and> SelectPageModel e lg page q opts = Some (page, q1, counted, lg1)
                \<and> SelectPageMaps perIteration e lg page q opts = Some (page, q1, counted, lg1))
           \<and> (out_Error cnt = None \<longrightarrow>
                (\<exists>q2 sdb pre.
                    Statement sdb = pre @ [ClOffset offset, ClLimit pageSize]
                    \<and> SelectPage e lg page q opts =
                        Some (page\<lparr>Total := out_count cnt,
                                   Records := out_rows (executor e lg1 (FFind, sdb))\<rparr>, q2,
                              sdb\<lparr>Error := out_Error (executor e lg1 (FFind, sdb)),
                                  RowsAffected := out_RowsAffected (executor e lg1 (FFind, sdb))\<rparr>,
                              lg1 @ [(FFind, sdb)]))
                \<and> (\<exists>q2 sdb pre.
                    Statement sdb = pre @ [ClOffset offset, ClLimit pageSize]
                    \<and> SelectPageModel e lg page q opts =
                        Some (page\<lparr>Total := out_count cnt,
                                   Records := out_rows (executor e lg1 (FScan, sdb))\<rparr>, q2,
                              sdb\<lparr>Error := out_Error (executor e lg1 (FScan, sdb)),
                                  RowsAffected := out_RowsAffected (executor e lg1 (FScan, sdb))\<rparr>,
                              lg1 @ [(FScan, sdb)]))
                \<and> (\<exists>p' q2 sdb pre.
                    Statement sdb = pre @ [ClOffset offset, ClLimit pageSize]
                    \<and> SelectPageMaps perIteration e lg page q opts =
                        Some (p', q2,
                              sdb\<lparr>Error := out_Error (executor e lg1 (FFind, sdb)),
                                  RowsAffected := out_RowsAffected (executor e lg1 (FFind, sdb))\<rparr>,
                              lg1 @ [(FFind, sdb)])
                    \<and> Total p' = out_count cnt
                    \<and> Current p' = Current page \<and> Size p' = Size page)))"
proof -
  define cnt where "cnt = executor e lg (FCount, cdb)"
  define counted where "counted = cdb\<lparr>Error := out_Error cnt, RowsAffected := out_RowsAffected cnt\<rparr>"
  define lg1 where "lg1 = lg @ [(FCount, cdb)]"
  define pageSize where "pageSize = (if Size page <=s 0 then 10 else Size page)"
  define offset where "offset = ((if Current page <=s 0 then 1 else Current page) - 1) * pageSize"
  obtain q2 rdb where again: "buildCondition e q1 opts = Some (q2, rdb)"
    using buildCondition_again [OF built] by blast
  define sdb where "sdb = Scopes (paginate page) rdb"
  have stmt: "Statement sdb = Statement rdb @ [ClOffset offset, ClLimit pageSize]"
    by (simp add: sdb_def Statement_Scopes paginate_def offset_def pageSize_def)
  have failed: "out_Error cnt \<noteq> None \<longrightarrow>
                SelectPage e lg page q opts = Some (page, q1, counted, lg1)
                \<and> SelectPageModel e lg page q opts = Some (page, q1, counted, lg1)
                \<and> SelectPageMaps perIteration e lg page q opts = Some (page, q1, counted, lg1)"
    using SelectPage_error [OF built] SelectPageModel_error [OF built] SelectPageMaps_error [OF built]
    by (simp add: cnt_def counted_def lg1_def)
  have find: "out_Error cnt = None \<longrightarrow>
      (\<exists>q2 sdb pre.
          Statement sdb = pre @ [ClOffset offset, ClLimit pageSize]
          \<and> SelectPage e lg page q opts =
              Some (page\<lparr>Total := out_count cnt,
                         Records := out_rows (executor e lg1 (FFind, sdb))\<rparr>, q2,
                    sdb\<lparr>Error := out_Error (executor e lg1 (FFind, sdb)),
                        RowsAffected := out_RowsAffected (executor e lg1 (FFind, sdb))\<rparr>,
                    lg1 @ [(FFind, sdb)]))"
  proof
    assume ok: "out_Error cnt = None"
    then have "out_Error (executor e lg (FCount, cdb)) = None"
      by (simp add: cnt_def)
    from SelectPage_ok [OF built this again, of page]
    have "SelectPage e lg page q opts =
              Some (page\<lparr>Total := out_count cnt,
                         Records := out_rows (executor e lg1 (FFind, sdb))\<rparr>, q2,
                    sdb\<lparr>Error := out_Error (executor e lg1 (FFind, sdb)),
                        RowsAffected := out_RowsAffected (executor e lg1 (FFind, sdb))\<rparr>,
                    lg1 @ [(FFind, sdb)])"
      by (simp add: Let_def cnt_def lg1_def sdb_def)
    with stmt show "\<exists>q2 sdb pre.
          Statement sdb = pre @ [ClOffset offset, ClLimit pageSize]
          \<and> SelectPage e lg page q opts =
              Some (page\<lparr>Total := out_count cnt,
                         Records := out_rows (executor e lg1 (FFind, sdb))\<rparr>, q2,
                    sdb\<lparr>Error := out_Error (executor e lg1 (FFind, sdb)),
                        RowsAffected := out_RowsAffected (executor e lg1 (FFind, sdb))\<rparr>,
                    lg1 @ [(FFind, sdb)])"
      by blast
  qed
  have scan: "out_Error cnt = None \<longrightarrow>
      (\<exists>q2 sdb pre.
          Statement sdb = pre @ [ClOffset offset, ClLimit pageSize]
          \<and> SelectPageModel e lg page q opts =
              Some (page\<lparr>Total := out_count cnt,
                         Records := out_rows (executor e lg1 (FScan, sdb))\<rparr>, q2,
                    sdb\<lparr>Error := out_Error (executor e lg1 (FScan, sdb)),
                        RowsAffected := out_RowsAffected (executor e lg1 (FScan, sdb))\<rparr>,
                    lg1 @ [(FScan, sdb)]))"
  proof
    assume ok: "out_Error cnt = None"
    then have "out_Error (executor e lg (FCount, cdb)) = None"
      by (simp add: cnt_def)
    from SelectPageModel_ok [OF built this again, of page]
    have "SelectPageModel e lg page q opts =
              Some (page\<lparr>Total := out_count cnt,
                         Records := out_rows (executor e lg1 (FScan, sdb))\<rparr>, q2,
                    sdb\<lparr>Error := out_Error (executor e lg1 (FScan, sdb)),
                        RowsAffected := out_RowsAffected (executor e lg1 (FScan, sdb))\<rparr>,
                    lg1 @ [(FScan, sdb)])"
      by (simp add: Let_def cnt_def lg1_def sdb_def)
    with stmt show "\<exists>q2 sdb pre.
          Statement sdb = pre @ [ClOffset offset, ClLimit pageSize]
          \<and> SelectPageModel e lg page q opts =
              Some (page\<lparr>Total := out_count cnt,
                         Records := out_rows (executor e lg1 (FScan, sdb))\<rparr>, q2,
                    sdb\<lparr>Error := out_Error (executor e lg1 (FScan, sdb)),
                        RowsAffected := out_RowsAffected (executor e lg1 (FScan, sdb))\<rparr>,
                    lg1 @ [(FScan, sdb)])"
      by blast
  qed
  have maps: "out_Error cnt = None \<longrightarrow>
      (\<exists>p' q2 sdb pre.
          Statement sdb = pre @ [ClOffset offset, ClLimit pageSize]
          \<and> SelectPageMaps perIteration e lg page q opts =
              Some (p', q2,
                    sdb\<lparr>Error := out_Error (executor e lg1 (FFind, sdb)),
                        RowsAffected := out_RowsAffected (executor e lg1 (FFind, sdb))\<rparr>,
                    lg1 @ [(FFind, sdb)])
          \<and> Total p' = out_count cnt
          \<and> Current p' = Current page \<and> Size p' = Size page)"
  proof
    assume ok: "out_Error cnt = None"
    then have "out_Error (executor e lg (FCount, cdb)) = None"
      by (simp add: cnt_def)
    from SelectPageMaps_ok [OF built this again, of perIteration page]
    obtain p' where "SelectPageMaps perIteration e lg page q opts =
              Some (p', q2,
                    sdb\<lparr>Error := out_Error (executor e lg1 (FFind, sdb)),
                        RowsAffected := out_RowsAffected (executor e lg1 (FFind, sdb))\<rparr>,
                    lg1 @ [(FFind, sdb)])"
      and "Total p' = out_count cnt" and "Current p' = Current page" and "Size p' = Size page"
      by (simp add: Let_def cnt_def lg1_def sdb_def)
    with stmt show "\<exists>p' q2 sdb pre.
          Statement sdb = pre @ [ClOffset offset, ClLimit pageSize]
          \<and> SelectPageMaps perIteration e lg page q opts =
              Some (p', q2,
                    sdb\<lparr>Error := out_Error (executor e lg1 (FFind, sdb)),
                        RowsAffected := out_RowsAffected (executor e lg1 (FFind, sdb))\<rparr>,
                    lg1 @ [(FFind, sdb)])
          \<and> Total p' = out_count cnt
          \<and> Current p' = Current page \<and> Size p' = Size page"
      by blast
  qed
  from failed find scan maps show ?thesis
    unfolding Let_def cnt_def counted_def lg1_def pageSize_def offset_def by blast
qed

theorem SelectPage_count_first_witness:
  "SelectPage (envWith (answers (Some ''connection refused'') 0 0 [])) [] (NewPage 2 10) None [] =
     Some (NewPage 2 10, None, dbModel\<lparr>Error := Some ''connection refused''\<rparr>, [(FCount, dbModel)])
   \<and> (\<exists>q2 sdb pre.
         Statement sdb = pre @ [ClOffset 10, ClLimit 10]
         \<and> SelectPage (envWith (answers None 2 25 [7, 8])) [] (NewPage 2 10) None [] =
             Some (\<lparr>Current = 2, Size = 10, Total = 25, Records = [7, 8]\<rparr>, q2,
                   sdb\<lparr>Error := None, RowsAffected := 2\<rparr>,
                   [(FCount, dbModel), (FFind, sdb)]))"
  using SelectPage_count_first [of "envWith (answers (Some ''connection refused'') 0 0 [])"
        None "[]" None dbModel "[]" "NewPage 2 10" True]
    SelectPage_count_first [of "envWith (answers None 2 25 [7, 8])"
        None "[]" None dbModel "[]" "NewPage 2 10" True]
  by (simp add: answers_def NewPage_def dbModel_def Let_def word_sle_eq)

text \<open>
  C3, as the claim has it, fails on a page that carries records from an earlier call:
  the count fails, and the page comes back with those records and that total.
\<close>

theorem SelectPage_stale_records_counterexample:
  "Records pageUsed = [7] \<and> Total pageUsed = 11
   \<and> SelectPage (envWith (answers (Some ''connection refused'') 0 0 [])) [] pageUsed None [] =
       Some (pageUsed, None, dbModel\<lparr>Error := Some ''connection refused''\<rparr>, [(FCount, dbModel)])"
  by (simp add: SelectPage_def SelectCount_def finish_def answers_def pageUsed_def dbModel_def)

text \<open>
  C9. With a handle resolved and a root text that is not empty, \<^verbatim>\<open>buildCondition\<close>
  leaves the builder with the text of the two groups appended to \<open>QueryBuilder\<close> and
  their arguments appended to \<open>QueryArgs\<close>. Compiling the builder it left appends them
  once more, so the second handle carries a predicate with the groups' text and arguments
  twice; and that is the predicate of the data query of \<^verbatim>\<open>SelectPage\<close>, which compiles
  once for the count and once for the data.
\<close>

theorem buildCondition_twice:
  assumes db: "getDb e opts = Some db" and root: "QueryBuilder q \<noteq> []"
  shows "(let ga = groupArgs (AndBracketBuilder q) (AndBracketArgs q);
              go = groupArgs (OrBracketBuilder q) (OrBracketArgs q);
              groups = AndBracketBuilder q @ OrBracketBuilder q;
              q1 = q\<lparr>QueryArgs := QueryArgs q @ ga @ go, QueryBuilder := QueryBuilder q @ groups\<rparr>;
              q2 = q\<lparr>QueryArgs := QueryArgs q @ ga @ go @ ga @ go,
                     QueryBuilder := QueryBuilder q @ groups @ groups\<rparr>;
              twice = ClWhere (QueryBuilder q @ groups @ groups) (QueryArgs q @ ga @ go @ ga @ go)
          in \<exists>r1. buildCondition e (Some q) opts = Some (Some q1, r1)
               \<and> (\<exists>r2. buildCondition e (Some q1) opts = Some (Some q2, r2)
                          \<and> twice \<in> set (Statement r2))
               \<and> (out_Error (executor e lg (FCount, r1)) = None \<longrightarrow>
                    (\<exists>p' r' sdb. SelectPage e lg page (Some q) opts =
                                   Some (p', Some q2, r', lg @ [(FCount, r1), (FFind, sdb)])
                                 \<and> twice \<in> set (Statement sdb))))"
proof -
  define ga where "ga = groupArgs (AndBracketBuilder q) (AndBracketArgs q)"
  define go where "go = groupArgs (OrBracketBuilder q) (OrBracketArgs q)"
  define groups where "groups = AndBracketBuilder q @ OrBracketBuilder q"
  define q1 where "q1 = q\<lparr>QueryArgs := QueryArgs q @ ga @ go, QueryBuilder := QueryBuilder q @ groups\<rparr>"
  define q2 where "q2 = q\<lparr>QueryArgs := QueryArgs q @ ga @ go @ ga @ go,
                     QueryBuilder := QueryBuilder q @ groups @ groups\<rparr>"
  define twice where "twice = ClWhere (QueryBuilder q @ groups @ groups) (QueryArgs q @ ga @ go @ ga @ go)"
  define r1 where "r1 = snd (applyQuery e q (chain ClModel db))"
  define r2 where "r2 = snd (applyQuery e q1 (chain ClModel db))"
  have first: "buildCondition e (Some q) opts = Some (Some q1, r1)"
    using root by (simp add: buildCondition_Some [OF db] fst_applyQuery appendBrackets_eq
        q1_def r1_def ga_def go_def groups_def)
  have root1: "QueryBuilder q1 \<noteq> []"
    using root by (simp add: q1_def)
  have second: "buildCondition e (Some q1) opts = Some (Some q2, r2)"
    using root1 by (simp add: buildCondition_Some [OF db] fst_applyQuery appendBrackets_eq
        q1_def q2_def r2_def ga_def go_def groups_def)
  have mem: "twice \<in> set (Statement r2)"
    using root by (simp add: r2_def Statement_applyQuery q1_def twice_def ga_def go_def groups_def)
  have page: "out_Error (executor e lg (FCount, r1)) = None \<longrightarrow>
      (\<exists>p' r' sdb. SelectPage e lg page (Some q) opts =
                      Some (p', Some q2, r', lg @ [(FCount, r1), (FFind, sdb)])
                    \<and> twice \<in> set (Statement sdb))"
  proof
    assume ok: "out_Error (executor e lg (FCount, r1)) = None"
    have "twice \<in> set (Statement (Scopes (paginate page) r2))"
      using mem by (simp add: Statement_Scopes)
    with SelectPage_ok [OF first ok second, of page] show
      "\<exists>p' r' sdb. SelectPage e lg page (Some q) opts =
                      Some (p', Some q2, r', lg @ [(FCount, r1), (FFind, sdb)])
                    \<and> twice \<in> set (Statement sdb)"
      by (simp add: Let_def)
  qed
  have "\<exists>r1. buildCondition e (Some q) opts = Some (Some q1, r1)
               \<and> (\<exists>r2. buildCondition e (Some q1) opts = Some (Some q2, r2)
                          \<and> twice \<in> set (Statement r2))
               \<and> (out_Error (executor e lg (FCount, r1)) = None \<longrightarrow>
                    (\<exists>p' r' sdb. SelectPage e lg page (Some q) opts =
                                   Some (p', Some q2, r', lg @ [(FCount, r1), (FFind, sdb)])
                                 \<and> twice \<in> set (Statement sdb)))"
    using first second mem page by (intro exI [of _ r1] conjI exI [of _ r2])
  then show ?thesis
    by (simp add: Let_def ga_def go_def groups_def q1_def q2_def twice_def)
qed

theorem buildCondition_twice_witness:
  "\<exists>r1 p' r' sdb.
      SelectPage (envWith (answers None 2 25 [7, 8])) [] (NewPage 1 10) (Some qSpec) [] =
        Some (p',
              Some (qSpec\<lparr>QueryArgs := [VInt 1, VStr ''NY'', VStr ''10001'', VBool True,
                                          VStr ''NY'', VStr ''10001'', VBool True],
                           QueryBuilder := ''status = ? AND (city = ? AND zip = ? ) OR (vip = ? ) AND (city = ? AND zip = ? ) OR (vip = ? ) ''\<rparr>),
              r', [(FCount, r1), (FFind, sdb)])
      \<and> ClWhere ''status = ? AND (city = ? AND zip = ? ) OR (vip = ? ) AND (city = ? AND zip = ? ) OR (vip = ? ) ''
           [VInt 1, VStr ''NY'', VStr ''10001'', VBool True, VStr ''NY'', VStr ''10001'', VBool True]
          \<in> set (Statement sdb)"
  using buildCondition_twice [of "envWith (answers None 2 25 [7, 8])" "[]" db0 qSpec "[]" "NewPage 1 10"]
  by (auto simp: Let_def groupArgs_def answers_def)

text \<open>
  C10. With the global handle set, the page that \<^verbatim>\<open>SelectPage\<close>, \<^verbatim>\<open>SelectPageModel\<close>
  and \<^verbatim>\<open>SelectPageMaps\<close> return has the \<open>Current\<close> and \<open>Size\<close> of the page at entry; it
  differs from that page in \<open>Total\<close> and \<open>Records\<close> at most. The defaults for values of
  at most 0 go to the variables the closure of \<^verbatim>\<open>paginate\<close> captured.
\<close>

theorem SelectPage_frame:
  assumes "globalDb e = Some g"
  shows "(\<exists>p' rest. SelectPage e lg page q opts = Some (p', rest)
            \<and> Current p' = Current page \<and> Size p' = Size page
            \<and> p' = page\<lparr>Total := Total p', Records := Records p'\<rparr>)
       \<and> (\<exists>p' rest. SelectPageModel e lg page q opts = Some (p', rest)
            \<and> Current p' = Current page \<and> Size p' = Size page
            \<and> p' = page\<lparr>Total := Total p', Records := Records p'\<rparr>)
       \<and> (\<exists>p' rest. SelectPageMaps perIteration e lg page q opts = Some (p', rest)
            \<and> Current p' = Current page \<and> Size p' = Size page
            \<and> p' = page\<lparr>Total := Total p', Records := Records p'\<rparr>)
       \<and> fst (paginate_call (paginate page) db) =
            \<lparr>cl_page = (if Current page <=s 0 then 1 else Current page),
             cl_pageSize = (if Size page <=s 0 then 10 else Size page)\<rparr>"
proof -
  from assms have "buildCondition e q opts \<noteq> None"
    by (simp add: buildCondition_eq_None)
  then obtain q1 cdb where built: "buildCondition e q opts = Some (q1, cdb)"
    by auto
  obtain q2 rdb where again: "buildCondition e q1 opts = Some (q2, rdb)"
    using buildCondition_again [OF built] by blast
  have closure: "fst (paginate_call (paginate page) db) =
            \<lparr>cl_page = (if Current page <=s 0 then 1 else Current page),
             cl_pageSize = (if Size page <=s 0 then 10 else Size page)\<rparr>"
    by (simp add: paginate_call_def paginate_def Let_def)
  show ?thesis
  proof (cases "out_Error (executor e lg (FCount, cdb)) = None")
    case True
    show ?thesis
      using closure SelectPage_ok [OF built True again, of page]
        SelectPageModel_ok [OF built True again, of page]
        SelectPageMaps_ok [OF built True again, of perIteration page]
      by (simp add: Let_def)
  next
    case False
    show ?thesis
      using closure SelectPage_error [OF built False, of page]
        SelectPageModel_error [OF built False, of page]
        SelectPageMaps_error [OF built False, of perIteration page]
      by simp
  qed
qed

theorem SelectPage_frame_witness:
  "(\<exists>p' rest. SelectPage (envWith (answers None 2 25 [7, 8])) [] (NewPage (- 3) 0) None [] = Some (p', rest)
       \<and> Current p' = - 3 \<and> Size p' = 0 \<and> Total p' = 25 \<and> Records p' = [7, 8])
   \<and> fst (paginate_call (paginate (NewPage (- 3) 0 :: nat Page)) db0) = \<lparr>cl_page = 1, cl_pageSize = 10\<rparr>"
  using SelectPage_frame [of "envWith (answers None 2 25 [7, 8])" db0 "[]" "NewPage (- 3) 0" None "[]" True db0]
    SelectPage_ok [of "envWith (answers None 2 25 [7, 8])" None "[]" None dbModel "[]" None dbModel "NewPage (- 3) 0"]
  by (auto simp: NewPage_def answers_def word_sle_eq Let_def)

subsection \<open>Existence\<close>

lemma SelectOne_eq:
  assumes "buildCondition e q opts = Some (q', rdb)"
  shows "SelectOne e lg q opts =
     (let out = executor e lg (FFirst, rdb)
      in Some (case out_rows out of [] \<Rightarrow> None | r # _ \<Rightarrow> Some r, q',
               rdb\<lparr>Error := out_Error out, RowsAffected := out_RowsAffected out\<rparr>,
               lg @ [(FFirst, rdb)]))"
  using assms by (simp add: SelectOne_def finish_def Let_def)

text \<open>
  C5, as the code has it. \<^verbatim>\<open>Exists\<close> issues the \<^verbatim>\<open>First\<close> call of \<^verbatim>\<open>SelectOne\<close> and
  returns two values read from its handle: whether \<open>RowsAffected\<close> is positive, and the
  error, unchanged. The boolean does not look at the error. So the result is true with no
  error exactly when the call reported at least one row and no error; and when it
  reported no row the boolean is false and the error is the one the call reported.
\<close>

theorem Exists_forwards:
  assumes "buildCondition e q opts = Some (q', rdb)"
  shows "(let out = executor e lg (FFirst, rdb)
          in Exists e lg q opts =
               Some ((0 <s out_RowsAffected out, out_Error out), q', lg @ [(FFirst, rdb)])
             \<and> ((\<exists>rest. Exists e lg q opts = Some ((True, None), rest))
                  \<longleftrightarrow> 0 <s out_RowsAffected out \<and> out_Error out = None))"
  using assms by (auto simp: Exists_def SelectOne_eq Let_def)

theorem Exists_forwards_witness:
  "Exists (envWith (answers None 1 0 [5])) [] None [] = Some ((True, None), None, [(FFirst, dbModel)])
   \<and> Exists (envWith (answers None 0 0 [])) [] None [] = Some ((False, None), None, [(FFirst, dbModel)])"
  using Exists_forwards [of "envWith (answers None 1 0 [5])" None "[]" None dbModel "[]"]
    Exists_forwards [of "envWith (answers None 0 0 [])" None "[]" None dbModel "[]"]
  by (simp add: answers_def Let_def word_sless_alt)

text \<open>
  C5, as the claim has it, fails twice. An executor that reports no row and the error
  it has for an empty result (gorm's \<^verbatim>\<open>First\<close> reports \<^verbatim>\<open>ErrRecordNotFound\<close>) makes
  \<^verbatim>\<open>Exists\<close> return false with that error; and one that reports a row and an error makes
  it return true.
\<close>

theorem Exists_error_counterexample:
  "Exists (envWith (answers (Some ''record not found'') 0 0 [])) [] None [] =
     Some ((False, Some ''record not found''), None, [(FFirst, dbModel)])
   \<and> Exists (envWith (answers (Some ''hook failed'') 1 0 [5])) [] None [] =
     Some ((True, Some ''hook failed''), None, [(FFirst, dbModel)])"
  by (simp add: Exists_def SelectOne_def finish_def answers_def Let_def word_sless_alt)

subsection \<open>The primary key's column\<close>

lemma scanFields_none:
  "\<forall>f \<in> set entityType. \<not> isPrimaryKey lib f \<Longrightarrow> scanFields lib entityType = []"
  by (induction entityType) simp_all

lemma scanFields_first:
  "\<forall>f \<in> set before. \<not> isPrimaryKey lib f \<Longrightarrow> isPrimaryKey lib field
     \<Longrightarrow> scanFields lib (before @ field # after) = pkName lib field"
  by (induction before) simp_all

text \<open>
  C6, as the code has it. When no field carries a primary-key marker (so for a type
  without fields), \<^verbatim>\<open>getPkColumnName\<close> returns the default name. Otherwise it takes the
  first marked field in declaration order, whatever follows it. Its name is the value of
  the tag's \<^verbatim>\<open>COLUMN\<close> key if the tag has that key, and the naming strategy's column
  name for the field otherwise; the result is that name, or the default name when that
  name is empty.
\<close>

theorem getPkColumnName_first_marked:
  "((\<forall>f \<in> set entityType. \<not> isPrimaryKey lib f) \<longrightarrow>
       getPkColumnName lib entityType = DefaultPrimaryName lib)
   \<and> ((\<forall>f \<in> set before. \<not> isPrimaryKey lib f) \<and> isPrimaryKey lib field \<longrightarrow>
        getPkColumnName lib (before @ field # after) =
          (let name = (case ParseTagSetting lib (gormTag field) '';'' ''COLUMN'' of
                         Some column \<Rightarrow> column
                       | None \<Rightarrow> ColumnName lib [] (Name field))
           in if name = [] then DefaultPrimaryName lib else name))"
proof (intro conjI impI)
  assume "\<forall>f \<in> set entityType. \<not> isPrimaryKey lib f"
  then show "getPkColumnName lib entityType = DefaultPrimaryName lib"
    by (simp add: getPkColumnName_def scanFields_none)
next
  assume "(\<forall>f \<in> set before. \<not> isPrimaryKey lib f) \<and> isPrimaryKey lib field"
  then have "scanFields lib (before @ field # after) = pkName lib field"
    by (simp add: scanFields_first)
  then show "getPkColumnName lib (before @ field # after) =
          (let name = (case ParseTagSetting lib (gormTag field) '';'' ''COLUMN'' of
                         Some column \<Rightarrow> column
                       | None \<Rightarrow> ColumnName lib [] (Name field))
           in if name = [] then DefaultPrimaryName lib else name)"
    by (simp add: getPkColumnName_def pkName_def Let_def)
qed

lemma isPrimaryKey_libEx:
  "isPrimaryKey libEx f \<longleftrightarrow>
     gormTag f \<in> {''primaryKey'', ''primaryKey;column:uid'', ''primaryKey;column:''}"
  by (simp add: isPrimaryKey_def libEx_def tagsEx_def truthEx_def index_def)

theorem getPkColumnName_first_marked_witness:
  "getPkColumnName libEx [] = ''id''
   \<and> getPkColumnName libEx [\<lparr>Name = ''Name'', gormTag = ''column:full_name''\<rparr>] = ''id''
   \<and> getPkColumnName libEx [\<lparr>Name = ''Name'', gormTag = []\<rparr>,
                             \<lparr>Name = ''UserID'', gormTag = ''primaryKey;column:uid''\<rparr>,
                             \<lparr>Name = ''Other'', gormTag = ''primaryKey''\<rparr>] = ''uid''
   \<and> getPkColumnName libEx [\<lparr>Name = ''UserID'', gormTag = ''primaryKey''\<rparr>] = ''user_id''"
  using getPkColumnName_first_marked [of "[]" libEx "[]" "\<lparr>Name = ''UserID'', gormTag = ''primaryKey''\<rparr>" "[]"]
    getPkColumnName_first_marked [of "[\<lparr>Name = ''Name'', gormTag = ''column:full_name''\<rparr>]" libEx
      "[\<lparr>Name = ''Name'', gormTag = []\<rparr>]" "\<lparr>Name = ''UserID'', gormTag = ''primaryKey;column:uid''\<rparr>"
      "[\<lparr>Name = ''Other'', gormTag = ''primaryKey''\<rparr>]"]
  by (simp add: isPrimaryKey_libEx) (simp add: libEx_def tagsEx_def snakeEx_def)

text \<open>
  C6, as the claim has it, fails on a marked field whose tag is
  \<^verbatim>\<open>primaryKey;column:\<close>: the result is the default name, which is neither the declared
  (empty) column name nor the name derived from the field.
\<close>

theorem getPkColumnName_empty_name_counterexample:
  "isPrimaryKey libEx \<lparr>Name = ''UserID'', gormTag = ''primaryKey;column:''\<rparr>
   \<and> ParseTagSetting libEx ''primaryKey;column:'' '';'' ''COLUMN'' = Some []
   \<and> ColumnName libEx [] ''UserID'' = ''user_id''
   \<and> getPkColumnName libEx [\<lparr>Name = ''UserID'', gormTag = ''primaryKey;column:''\<rparr>] = ''id''"
  by (simp add: getPkColumnName_def isPrimaryKey_def pkName_def libEx_def tagsEx_def truthEx_def
      snakeEx_def index_def Let_def)

end
